theory Spec2Isabelle
  imports
    Main
    "HOL-Library.Char_ord"
    "HOL-Library.List_Lexorder"
    "HOL-Library.Multiset"
begin

section \<open>The Genre controller of the library catalogue\<close>

text \<open>
  A shallow embedding of \<^verbatim>\<open>controllers/genreController.js\<close>: eight Express request
  handlers over two Mongoose collections. Every handler is a function from the world
  before the request to the world after it. The world holds the two collections and a
  trace: the database operations the handler issued and the calls it made on
  \<^verbatim>\<open>res\<close> and \<^verbatim>\<open>next\<close>, in the order of the source.
\<close>

subsection \<open>Documents\<close>

text \<open>
  Identifiers are opaque (Mongo ObjectIds, written as strings). Strings are sequences of
  characters with codes below 256, ordered by code (\<^verbatim>\<open>Char_ord\<close>) and
  lexicographically (\<^verbatim>\<open>List_Lexorder\<close>): the simple binary comparison MongoDB applies
  when a query names no collation.

  Modelled from the spec: \<^verbatim>\<open>models/genre.js\<close> and \<^verbatim>\<open>models/book.js\<close> are required by
  the controller and are not among the sources. A Genre is an identifier and a name, with
  the derived \<^verbatim>\<open>url = "/catalog/genre/" + id\<close>; a Book has a title, a summary and
  references to zero or more Genre identifiers.
\<close>

type_synonym oid = string

record genre =
  genre_id :: oid
  genre_name :: string

record book =
  book_id :: oid
  book_title :: string
  book_summary :: string
  book_genre :: "oid list"

text \<open>Modelled from the spec: the virtual property \<^verbatim>\<open>url\<close> of the Genre schema.\<close>

definition url :: "genre \<Rightarrow> string" where
  "url g = ''/catalog/genre/'' @ genre_id g"

text \<open>A Book as \<^verbatim>\<open>Book.find(..., "title summary")\<close> returns it: the projection keeps
  the identifier and the two named fields.\<close>

record book_brief =
  brief_id :: oid
  brief_title :: string
  brief_summary :: string

text \<open>A Book after \<^verbatim>\<open>.populate("genre")\<close>: each reference replaced by the Genre
  document it names.\<close>

record book_populated =
  pop_id :: oid
  pop_title :: string
  pop_summary :: string
  pop_genre :: "genre list"

subsection \<open>Requests, errors, views and the trace\<close>

text \<open>What the handlers read of a request: \<^verbatim>\<open>req.params.id\<close>, and the form fields
  \<^verbatim>\<open>req.body.name\<close> (as submitted, before the validation chain) and
  \<^verbatim>\<open>req.body.genreid\<close>.\<close>

record request =
  params_id :: oid
  body_name :: string
  body_genreid :: oid

record validation_error =
  err_msg :: string
  err_path :: string
  err_location :: string
  err_value :: string

text \<open>
  \<^verbatim>\<open>StatusError m n\<close> is \<^verbatim>\<open>new Error(m)\<close> with \<^verbatim>\<open>err.status = n\<close>.
  \<^verbatim>\<open>TypeError\<close> is what reading a property of \<^verbatim>\<open>null\<close> throws,
  \<^verbatim>\<open>DuplicateKey\<close> what an insert with an identifier already in the collection
  throws, and \<^verbatim>\<open>CastError s\<close> what a query by identifier rejects with when the
  string \<^verbatim>\<open>s\<close> is not an ObjectId. The three carry no status, and
  \<^verbatim>\<open>asyncHandler\<close> passes them to \<^verbatim>\<open>next\<close>.
\<close>

datatype js_error =
    StatusError string nat
  | TypeError string
  | DuplicateKey oid
  | CastError string

text \<open>The second argument of \<^verbatim>\<open>res.render\<close>, one constructor per template. A field
  the handler may leave out, or may pass as \<^verbatim>\<open>null\<close>, is an option.\<close>

datatype locals =
    GenreListLocals string "genre list"
  | GenreDetailLocals string genre "book_brief list"
  | GenreFormLocals string "genre option" "validation_error list option"
  | GenreDeleteLocals string "genre option" "book_populated list"

datatype db_op =
    OpGenreFindSorted
  | OpGenreFindById oid
  | OpGenreFindOne string
  | OpGenreSave genre
  | OpGenreFindByIdAndDelete oid
  | OpGenreFindByIdAndUpdate oid genre
  | OpBookFind oid

datatype event =
    Db db_op
  | Render string locals
  | Redirect string
  | Next js_error

record world =
  genres :: "genre list"
  books :: "book list"
  trace :: "event list"

definition emit :: "event \<Rightarrow> world \<Rightarrow> world" where
  "emit e w = w\<lparr>trace := trace w @ [e]\<rparr>"

definition res_render :: "string \<Rightarrow> locals \<Rightarrow> world \<Rightarrow> world" where
  "res_render view ls w = emit (Render view ls) w"

definition res_redirect :: "string \<Rightarrow> world \<Rightarrow> world" where
  "res_redirect u w = emit (Redirect u) w"

definition next_err :: "js_error \<Rightarrow> world \<Rightarrow> world" where
  "next_err e w = emit (Next e) w"

text \<open>
  The status a call on \<^verbatim>\<open>res\<close> sends. \<^verbatim>\<open>res.render\<close> sends the response's status
  code, which is 200 unless \<^verbatim>\<open>res.status\<close> was called, and no handler of this file
  calls it; \<^verbatim>\<open>res.redirect(url)\<close> sends 302. What \<^verbatim>\<open>next(err)\<close> sends is decided
  by the application's error handler, outside this file.
\<close>

fun http_status :: "event \<Rightarrow> nat option" where
  "http_status (Render view ls) = Some 200"
| "http_status (Redirect u) = Some 302"
| "http_status (Next e) = None"
| "http_status (Db opn) = None"

fun is_db :: "event \<Rightarrow> bool" where
  "is_db (Db opn) = True"
| "is_db e = False"

subsection \<open>The validation chain of the name field\<close>

text \<open>
  \<^verbatim>\<open>body("name", msg).trim().isLength({ min: 3 }).escape()\<close> of express-validator runs
  in the order written: \<^verbatim>\<open>trim\<close> replaces the field by its trimmed value,
  \<^verbatim>\<open>isLength\<close> checks the trimmed value and records an error when it fails, and
  \<^verbatim>\<open>escape\<close> replaces the field again, whether the check failed or not.
  \<^verbatim>\<open>is_space\<close> is JavaScript's \<^verbatim>\<open>\s\<close> on characters below 256.
\<close>

definition is_space :: "char \<Rightarrow> bool" where
  "is_space c = (c \<in> set [CHR 0x09, CHR 0x0A, CHR 0x0B, CHR 0x0C, CHR 0x0D, CHR 0x20, CHR 0xA0])"

definition ltrim :: "string \<Rightarrow> string" where
  "ltrim s = dropWhile is_space s"

definition rtrim :: "string \<Rightarrow> string" where
  "rtrim s = rev (dropWhile is_space (rev s))"

definition trim :: "string \<Rightarrow> string" where
  "trim s = rtrim (ltrim s)"

definition isLength_min :: "nat \<Rightarrow> string \<Rightarrow> bool" where
  "isLength_min n s = (n \<le> length s)"

definition replace_all :: "char \<Rightarrow> string \<Rightarrow> string \<Rightarrow> string" where
  "replace_all c r s = concat (map (\<lambda>x. if x = c then r else [x]) s)"

definition escape :: "string \<Rightarrow> string" where
  "escape s =
     replace_all (CHR 0x60) ''&#96;''
       (replace_all (CHR 0x5C) ''&#x5C;''
         (replace_all (CHR 0x2F) ''&#x2F;''
           (replace_all (CHR 0x3E) ''&gt;''
             (replace_all (CHR 0x3C) ''&lt;''
               (replace_all (CHR 0x27) ''&#x27;''
                 (replace_all (CHR 0x22) ''&quot;''
                   (replace_all (CHR 0x26) ''&amp;'' s)))))))"

text \<open>The chain's two results: \<^verbatim>\<open>validationResult(req).array()\<close>, one entry for
  the failed check, and the value the chain leaves in \<^verbatim>\<open>req.body.name\<close>.\<close>

definition validation_errors :: "string \<Rightarrow> validation_error list" where
  "validation_errors raw =
     (if isLength_min 3 (trim raw) then []
      else [\<lparr>err_msg = ''Genre name must contain at least 3 characters'',
             err_path = ''name'', err_location = ''body'', err_value = trim raw\<rparr>])"

definition sanitized_name :: "string \<Rightarrow> string" where
  "sanitized_name raw = escape (trim raw)"

subsection \<open>Queries\<close>

text \<open>
  A collection is the list of its documents in natural order. Every query returns its
  result and the world with the operation appended to the trace.
  \<^verbatim>\<open>Genre.find().sort({ name: 1 })\<close> sorts by name in ascending binary order.
\<close>

definition find_by_id :: "oid \<Rightarrow> genre list \<Rightarrow> genre option" where
  "find_by_id i gs = find (\<lambda>g. genre_id g = i) gs"

definition Genre_find_sort_name :: "world \<Rightarrow> genre list \<times> world" where
  "Genre_find_sort_name w = (sort_key genre_name (genres w), emit (Db OpGenreFindSorted) w)"

text \<open>
  A query by identifier first casts the string it is given to an ObjectId, and rejects
  with a CastError when the string is not one; the document store is not asked then. Which
  strings are identifiers, and which identifier a string denotes, is the driver's affair:
  the handlers take the cast as the parameter \<^verbatim>\<open>cast\<close>. A rejected promise is the
  left summand.
\<close>

type_synonym id_cast = "string \<Rightarrow> oid option"

definition Genre_findById :: "id_cast \<Rightarrow> string \<Rightarrow> world \<Rightarrow> (js_error + genre option) \<times> world" where
  "Genre_findById cast raw w =
     (case cast raw of
        None \<Rightarrow> (Inl (CastError raw), emit (Db (OpGenreFindById raw)) w)
      | Some i \<Rightarrow> (Inr (find_by_id i (genres w)), emit (Db (OpGenreFindById raw)) w))"

text \<open>The filter \<^verbatim>\<open>{ genre: id }\<close> on an array field selects the documents whose array
  holds \<^verbatim>\<open>id\<close>.\<close>

definition books_in_genre :: "oid \<Rightarrow> book list \<Rightarrow> book list" where
  "books_in_genre i bs = filter (\<lambda>b. i \<in> set (book_genre b)) bs"

definition project_title_summary :: "book \<Rightarrow> book_brief" where
  "project_title_summary b =
     \<lparr>brief_id = book_id b, brief_title = book_title b, brief_summary = book_summary b\<rparr>"

definition populate_genre :: "genre list \<Rightarrow> book \<Rightarrow> book_populated" where
  "populate_genre gs b =
     \<lparr>pop_id = book_id b, pop_title = book_title b, pop_summary = book_summary b,
      pop_genre = List.map_filter (\<lambda>i. find_by_id i gs) (book_genre b)\<rparr>"

definition Book_find_title_summary ::
    "id_cast \<Rightarrow> string \<Rightarrow> world \<Rightarrow> (js_error + book_brief list) \<times> world" where
  "Book_find_title_summary cast raw w =
     (case cast raw of
        None \<Rightarrow> (Inl (CastError raw), emit (Db (OpBookFind raw)) w)
      | Some i \<Rightarrow>
          (Inr (map project_title_summary (books_in_genre i (books w))),
           emit (Db (OpBookFind raw)) w))"

definition Book_find_populate ::
    "id_cast \<Rightarrow> string \<Rightarrow> world \<Rightarrow> (js_error + book_populated list) \<times> world" where
  "Book_find_populate cast raw w =
     (case cast raw of
        None \<Rightarrow> (Inl (CastError raw), emit (Db (OpBookFind raw)) w)
      | Some i \<Rightarrow>
          (Inr (map (populate_genre (genres w)) (books_in_genre i (books w))),
           emit (Db (OpBookFind raw)) w))"

text \<open>\<^verbatim>\<open>await Promise.all([p, q])\<close> of two queries that have both been started: the
  pair of their results, or the first rejection.\<close>

definition promise_all :: "js_error + 'a \<Rightarrow> js_error + 'b \<Rightarrow> js_error + 'a \<times> 'b" where
  "promise_all p q =
     (case p of
        Inl e \<Rightarrow> Inl e
      | Inr x \<Rightarrow> (case q of Inl e \<Rightarrow> Inl e | Inr y \<Rightarrow> Inr (x, y)))"

text \<open>
  \<^verbatim>\<open>Genre.findOne({ name: n }).collation({ locale: "en", strength: 2 })\<close>: the first
  document whose name the collation holds equal to \<^verbatim>\<open>n\<close>. The comparison is the
  database's; the handlers take it as the parameter \<^verbatim>\<open>coll\<close>.
\<close>

type_synonym collation = "string \<Rightarrow> string \<Rightarrow> bool"

definition Genre_findOne_name :: "collation \<Rightarrow> string \<Rightarrow> world \<Rightarrow> genre option \<times> world" where
  "Genre_findOne_name coll n w =
     (find (\<lambda>g. coll (genre_name g) n) (genres w), emit (Db (OpGenreFindOne n)) w)"

text \<open>A comparison for running the handlers: equality after folding the letters A to Z
  to lower case, which is what strength 2 of the English collation decides on letters,
  digits and spaces of ASCII.\<close>

definition to_lower :: "char \<Rightarrow> char" where
  "to_lower c =
     (if CHR ''A'' \<le> c \<and> c \<le> CHR ''Z'' then char_of (of_char c + (32 :: nat)) else c)"

definition ascii_ci :: collation where
  "ascii_ci a b = (map to_lower a = map to_lower b)"

text \<open>A cast for running the handlers: the strings of 24 hexadecimal digits, which every
  version of the driver takes as an ObjectId, read without regard to the case of the
  digits. It refuses every string of another length.\<close>

definition is_hex :: "char \<Rightarrow> bool" where
  "is_hex c =
     ((CHR ''0'' \<le> c \<and> c \<le> CHR ''9'') \<or> (CHR ''a'' \<le> c \<and> c \<le> CHR ''f'')
      \<or> (CHR ''A'' \<le> c \<and> c \<le> CHR ''F''))"

definition cast_hex24 :: id_cast where
  "cast_hex24 s = (if length s = 24 \<and> list_all is_hex s then Some (map to_lower s) else None)"

text \<open>
  \<^verbatim>\<open>genre.save()\<close> of a new document inserts it; the collection's unique index on
  the identifier refuses one that is already there.
\<close>

definition Genre_save :: "genre \<Rightarrow> world \<Rightarrow> js_error option \<times> world" where
  "Genre_save g w =
     (let w1 = emit (Db (OpGenreSave g)) w
      in if genre_id g \<in> set (map genre_id (genres w)) then (Some (DuplicateKey (genre_id g)), w1)
         else (None, w1\<lparr>genres := genres w1 @ [g]\<rparr>))"

fun delete_first :: "oid \<Rightarrow> genre list \<Rightarrow> genre list" where
  "delete_first i [] = []"
| "delete_first i (g # gs) = (if genre_id g = i then gs else g # delete_first i gs)"

text \<open>\<^verbatim>\<open>Genre.findByIdAndDelete(id)\<close> casts as the queries do, and removes the first
  document with the identifier when there is one.\<close>

definition Genre_findByIdAndDelete :: "id_cast \<Rightarrow> string \<Rightarrow> world \<Rightarrow> js_error option \<times> world" where
  "Genre_findByIdAndDelete cast raw w =
     (let w1 = emit (Db (OpGenreFindByIdAndDelete raw)) w
      in case cast raw of
           None \<Rightarrow> (Some (CastError raw), w1)
         | Some i \<Rightarrow> (None, w1\<lparr>genres := delete_first i (genres w1)\<rparr>))"

text \<open>
  \<^verbatim>\<open>Genre.findByIdAndUpdate(id, doc, {})\<close> sets the fields of \<^verbatim>\<open>doc\<close> on the first
  document with that identifier and returns the document as it was before, or
  \<^verbatim>\<open>null\<close> (and changes nothing) when there is none. The identifier is compared as it
  is written in the path: what the update does with a path that is not an identifier is
  not modelled.
\<close>

fun update_first :: "oid \<Rightarrow> genre \<Rightarrow> genre list \<Rightarrow> genre list" where
  "update_first i d [] = []"
| "update_first i d (g # gs) =
     (if genre_id g = i then g\<lparr>genre_id := genre_id d, genre_name := genre_name d\<rparr> # gs
      else g # update_first i d gs)"

definition Genre_findByIdAndUpdate :: "oid \<Rightarrow> genre \<Rightarrow> world \<Rightarrow> genre option \<times> world" where
  "Genre_findByIdAndUpdate i d w =
     (let w1 = emit (Db (OpGenreFindByIdAndUpdate i d)) w
      in (find_by_id i (genres w), w1\<lparr>genres := update_first i d (genres w1)\<rparr>))"

subsection \<open>The handlers\<close>

text \<open>Each handler is wrapped in \<^verbatim>\<open>asyncHandler\<close>: a rejected \<^verbatim>\<open>await\<close> ends the
  handler and passes the error to \<^verbatim>\<open>next\<close>.\<close>

definition genre_list :: "world \<Rightarrow> world" where
  "genre_list w =
     (let (allGenres, w1) = Genre_find_sort_name w
      in res_render ''genre_list'' (GenreListLocals ''Genre List'' allGenres) w1)"

definition genre_detail :: "id_cast \<Rightarrow> request \<Rightarrow> world \<Rightarrow> world" where
  "genre_detail cast req w =
     (let (p, w1) = Genre_findById cast (params_id req) w;
          (q, w2) = Book_find_title_summary cast (params_id req) w1
      in case promise_all p q of
           Inl e \<Rightarrow> next_err e w2
         | Inr (genre, booksInGenre) \<Rightarrow>
             (case genre of
                None \<Rightarrow> next_err (StatusError ''Genre not found'' 404) w2
              | Some g \<Rightarrow>
                  res_render ''genre_detail''
                    (GenreDetailLocals ''Genre Detail'' g booksInGenre) w2))"

definition genre_create_get :: "world \<Rightarrow> world" where
  "genre_create_get w = res_render ''genre_form'' (GenreFormLocals ''Create Genre'' None None) w"

text \<open>\<^verbatim>\<open>new Genre({ name })\<close> draws a new ObjectId; it is the argument \<^verbatim>\<open>new_id\<close>.\<close>

definition genre_create_post :: "collation \<Rightarrow> oid \<Rightarrow> request \<Rightarrow> world \<Rightarrow> world" where
  "genre_create_post coll new_id req w =
     (let errors = validation_errors (body_name req);
          name = sanitized_name (body_name req);
          genre = \<lparr>genre_id = new_id, genre_name = name\<rparr>
      in if errors \<noteq> [] then
           res_render ''genre_form'' (GenreFormLocals ''Create Genre'' (Some genre) (Some errors)) w
         else
           (let (genreExists, w1) = Genre_findOne_name coll name w
            in case genreExists of
                 Some g \<Rightarrow> res_redirect (url g) w1
               | None \<Rightarrow>
                   (let (failure, w2) = Genre_save genre w1
                    in case failure of
                         Some e \<Rightarrow> next_err e w2
                       | None \<Rightarrow> res_redirect (url genre) w2)))"

text \<open>The branch for a missing Genre redirects and does not return: the call of
  \<^verbatim>\<open>res.render\<close> after it is made as well.\<close>

definition genre_delete_get :: "id_cast \<Rightarrow> request \<Rightarrow> world \<Rightarrow> world" where
  "genre_delete_get cast req w =
     (let (p, w1) = Genre_findById cast (params_id req) w;
          (q, w2) = Book_find_populate cast (params_id req) w1
      in case promise_all p q of
           Inl e \<Rightarrow> next_err e w2
         | Inr (genre, allBooksInGenre) \<Rightarrow>
             (let w3 = (if genre = None then res_redirect ''/catalog/genres'' w2 else w2)
              in res_render ''genre_delete''
                   (GenreDeleteLocals ''Delete genre'' genre allBooksInGenre) w3))"

definition genre_delete_post :: "id_cast \<Rightarrow> request \<Rightarrow> world \<Rightarrow> world" where
  "genre_delete_post cast req w =
     (let (p, w1) = Genre_findById cast (params_id req) w;
          (q, w2) = Book_find_populate cast (params_id req) w1
      in case promise_all p q of
           Inl e \<Rightarrow> next_err e w2
         | Inr (genre, allBooksInGenre) \<Rightarrow>
             if length allBooksInGenre > 0 then
               res_render ''genre_delete''
                 (GenreDeleteLocals ''Delete Genre'' genre allBooksInGenre) w2
             else
               (let (failure, w3) = Genre_findByIdAndDelete cast (body_genreid req) w2
                in case failure of
                     Some e \<Rightarrow> next_err e w3
                   | None \<Rightarrow> res_redirect ''/catalog/genres'' w3))"

definition genre_update_get :: "id_cast \<Rightarrow> request \<Rightarrow> world \<Rightarrow> world" where
  "genre_update_get cast req w =
     (let (p, w1) = Genre_findById cast (params_id req) w
      in case p of
           Inl e \<Rightarrow> next_err e w1
         | Inr None \<Rightarrow> next_err (StatusError ''Book not found'' 404) w1
         | Inr (Some g) \<Rightarrow>
             res_render ''genre_form'' (GenreFormLocals ''Update Genre'' (Some g) None) w1)"

definition genre_update_post :: "request \<Rightarrow> world \<Rightarrow> world" where
  "genre_update_post req w =
     (let errors = validation_errors (body_name req);
          name = sanitized_name (body_name req);
          genre = \<lparr>genre_id = params_id req, genre_name = name\<rparr>
      in if errors \<noteq> [] then
           res_render ''genre_form'' (GenreFormLocals ''Update Genre'' (Some genre) (Some errors)) w
         else
           (let (updatedGenre, w1) = Genre_findByIdAndUpdate (params_id req) genre w
            in case updatedGenre of
                 None \<Rightarrow> next_err (TypeError ''Cannot read properties of null (reading url)'') w1
               | Some g \<Rightarrow> res_redirect (url g) w1))"

section \<open>Properties\<close>

subsection \<open>Sorting by a key\<close>

lemma map_insort_key: "map f (insort_key f x xs) = insort (f x) (map f xs)"
  by (induction xs) simp_all

lemma map_sort_key: "map f (sort_key f xs) = sort (map f xs)"
  by (induction xs) (simp_all add: map_insort_key)

subsection \<open>Validation, lookup and update of a collection\<close>

lemma validation_errors_ok:
  "3 \<le> length (trim raw) \<Longrightarrow> validation_errors raw = []"
  by (simp add: validation_errors_def isLength_min_def)

lemma validation_errors_short:
  "length (trim raw) < 3 \<Longrightarrow>
   validation_errors raw =
     [\<lparr>err_msg = ''Genre name must contain at least 3 characters'',
       err_path = ''name'', err_location = ''body'', err_value = trim raw\<rparr>]"
  by (simp add: validation_errors_def isLength_min_def)

text \<open>A name with no white space at either end and none of the eight characters that
  \<^verbatim>\<open>escape\<close> replaces passes the chain unchanged.\<close>

lemma replace_all_absent: "c \<notin> set s \<Longrightarrow> replace_all c r s = s"
  by (induction s) (auto simp: replace_all_def)

lemma escape_plain:
  assumes "set s \<inter> set [CHR 0x26, CHR 0x22, CHR 0x27, CHR 0x3C, CHR 0x3E, CHR 0x2F, CHR 0x5C, CHR 0x60] = {}"
  shows "escape s = s"
  using assms by (simp add: escape_def replace_all_absent)

lemma trim_plain:
  assumes "s \<noteq> []" and "\<not> is_space (hd s)" and "\<not> is_space (last s)"
  shows "trim s = s"
proof -
  from assms(1,2) have l: "ltrim s = s"
    by (cases s) (simp_all add: ltrim_def)
  from assms(1) obtain ys y where s: "s = ys @ [y]"
    by (cases s rule: rev_cases) auto
  with assms(3) have "dropWhile is_space (rev s) = rev s" by simp
  then show ?thesis by (simp add: trim_def l rtrim_def)
qed

lemma sanitized_name_plain:
  assumes "s \<noteq> []" and "\<not> is_space (hd s)" and "\<not> is_space (last s)"
      and "set s \<inter> set [CHR 0x26, CHR 0x22, CHR 0x27, CHR 0x3C, CHR 0x3E, CHR 0x2F, CHR 0x5C, CHR 0x60] = {}"
  shows "sanitized_name s = s"
  using assms by (simp add: sanitized_name_def trim_plain escape_plain del: set_simps)

text \<open>The eight characters that \<^verbatim>\<open>escape\<close> replaces, and what it puts for each.\<close>

lemma escape_markup:
  "escape [CHR 0x26, CHR 0x22, CHR 0x27, CHR 0x3C, CHR 0x3E, CHR 0x2F, CHR 0x5C, CHR 0x60]
   = ''&amp;&quot;&#x27;&lt;&gt;&#x2F;&#x5C;&#96;''"
  by code_simp

lemma find_Some_mem: "find P xs = Some x \<Longrightarrow> x \<in> set xs \<and> P x"
  by (auto simp: find_Some_iff)

text \<open>What \<^verbatim>\<open>find\<close> returns is the first element that satisfies the test.\<close>

lemma find_Some_first:
  "find P xs = Some x \<Longrightarrow> \<exists>pre post. xs = pre @ x # post \<and> (\<forall>h\<in>set pre. \<not> P h) \<and> P x"
proof (induction xs)
  case Nil
  then show ?case by simp
next
  case (Cons a xs)
  show ?case
  proof (cases "P a")
    case True
    with Cons.prems have "x = a" by simp
    with True have "a # xs = [] @ x # xs \<and> (\<forall>h\<in>set []. \<not> P h) \<and> P x" by simp
    then show ?thesis by blast
  next
    case False
    with Cons.prems have "find P xs = Some x" by simp
    from Cons.IH [OF this] obtain pre post
      where "xs = pre @ x # post" and "\<forall>h\<in>set pre. \<not> P h" and "P x" by blast
    with False have "a # xs = (a # pre) @ x # post \<and> (\<forall>h\<in>set (a # pre). \<not> P h) \<and> P x"
      by simp
    then show ?thesis by blast
  qed
qed

lemma find_by_id_Some: "find_by_id i gs = Some g \<Longrightarrow> g \<in> set gs \<and> genre_id g = i"
  unfolding find_by_id_def by (rule find_Some_mem)

lemma find_by_id_None: "(find_by_id i gs = None) = (i \<notin> set (map genre_id gs))"
  by (auto simp: find_by_id_def find_None_iff)

lemma id_mem_iff: "(i \<in> set (map genre_id gs)) = (\<exists>g\<in>set gs. genre_id g = i)"
  by (induction gs) auto

lemma update_first_ids:
  "genre_id d = i \<Longrightarrow> map genre_id (update_first i d gs) = map genre_id gs"
  by (induction gs) simp_all

lemma update_first_find:
  "i \<in> set (map genre_id gs) \<Longrightarrow> genre_id d = i \<Longrightarrow>
   find_by_id i (update_first i d gs) = Some d"
  by (induction gs) (auto simp: find_by_id_def)


lemma update_first_others:
  "genre_id d = i \<Longrightarrow>
   filter (\<lambda>g. genre_id g \<noteq> i) (update_first i d gs) = filter (\<lambda>g. genre_id g \<noteq> i) gs"
  by (induction gs) auto

lemma delete_first_absent: "i \<notin> set (map genre_id gs) \<Longrightarrow> delete_first i gs = gs"
  by (induction gs) auto

lemma delete_first_distinct:
  "distinct (map genre_id gs) \<Longrightarrow> delete_first i gs = filter (\<lambda>g. genre_id g \<noteq> i) gs"
proof (induction gs)
  case Nil
  show ?case by simp
next
  case (Cons g gs)
  show ?case
  proof (cases "genre_id g = i")
    case True
    with Cons.prems have "i \<notin> set (map genre_id gs)" by auto
    then have "filter (\<lambda>g. genre_id g \<noteq> i) gs = gs" by (induction gs) auto
    with True show ?thesis by simp
  next
    case False
    with Cons show ?thesis by simp
  qed
qed

subsection \<open>Creating a Genre\<close>

text \<open>
  C4. A create request whose name, once trimmed, is shorter than 3 characters persists
  nothing: the handler's only effect is one call of \<^verbatim>\<open>res.render\<close> of the view
  \<^verbatim>\<open>genre_form\<close>, sent with status 200, with a Genre that carries the sanitized
  (trimmed and escaped) name and with the list of validation errors, which has the one
  message of the chain.
\<close>

theorem genre_create_post_invalid:
  assumes short: "length (trim (body_name req)) < 3"
  shows "genre_create_post coll new_id req w =
           w\<lparr>trace := trace w @
              [Render ''genre_form''
                 (GenreFormLocals ''Create Genre''
                    (Some \<lparr>genre_id = new_id, genre_name = sanitized_name (body_name req)\<rparr>)
                    (Some [\<lparr>err_msg = ''Genre name must contain at least 3 characters'',
                            err_path = ''name'', err_location = ''body'',
                            err_value = trim (body_name req)\<rparr>]))]\<rparr>
         \<and> genres (genre_create_post coll new_id req w) = genres w
         \<and> books (genre_create_post coll new_id req w) = books w
         \<and> map http_status (drop (length (trace w)) (trace (genre_create_post coll new_id req w)))
             = [Some 200]"
  by (simp add: genre_create_post_def validation_errors_short [OF short] res_render_def
      emit_def Let_def)

text \<open>The name \<^verbatim>\<open>" <b "\<close>: two characters once trimmed, one of which is escaped. The
  form is given the name \<^verbatim>\<open>&lt;b\<close>; the error reports the trimmed value.\<close>

theorem genre_create_post_invalid_witness:
  "length (trim '' <b '') < 3
   \<and> genre_create_post ascii_ci ''g2''
        \<lparr>params_id = [], body_name = '' <b '', body_genreid = []\<rparr>
        \<lparr>genres = [\<lparr>genre_id = ''g1'', genre_name = ''Fantasy''\<rparr>], books = [], trace = []\<rparr>
      = \<lparr>genres = [\<lparr>genre_id = ''g1'', genre_name = ''Fantasy''\<rparr>], books = [],
         trace =
           [Render ''genre_form''
              (GenreFormLocals ''Create Genre''
                 (Some \<lparr>genre_id = ''g2'', genre_name = ''&lt;b''\<rparr>)
                 (Some [\<lparr>err_msg = ''Genre name must contain at least 3 characters'',
                         err_path = ''name'', err_location = ''body'', err_value = ''<b''\<rparr>]))]\<rparr>"
proof -
  have short: "length (trim (body_name \<lparr>params_id = [], body_name = '' <b '', body_genreid = []\<rparr>)) < 3"
    by code_simp
  have t: "trim '' <b '' = ''<b''" by code_simp
  have s: "sanitized_name '' <b '' = ''&lt;b''" by code_simp
  show ?thesis
    using genre_create_post_invalid [where coll = ascii_ci and new_id = "''g2''"
        and w = "\<lparr>genres = [\<lparr>genre_id = ''g1'', genre_name = ''Fantasy''\<rparr>], books = [], trace = []\<rparr>",
        OF short]
    by (simp add: t s)
qed

text \<open>
  C1, as amended. A create request whose trimmed name has at least 3 characters, the
  identifier drawn for the new document being new to the collection. The name compared and
  stored is the sanitized one (the submitted name trimmed and escaped). If some Genre has a
  name the collation holds equal to it, the collections are left as they are and the
  response is a redirect to the detail URL of the first such Genre of the collection: no
  Genre before it has a name the collation holds equal. Otherwise exactly one Genre, with
  the new identifier and the sanitized name, is added to the collection, and the response
  is a redirect to its detail URL.
\<close>

theorem genre_create_post_valid:
  assumes len: "3 \<le> length (trim (body_name req))"
      and fresh: "new_id \<notin> set (map genre_id (genres w))"
  shows "(if \<exists>g\<in>set (genres w). coll (genre_name g) (sanitized_name (body_name req))
          then \<exists>pre g post.
                 genres w = pre @ g # post
                 \<and> (\<forall>h\<in>set pre. \<not> coll (genre_name h) (sanitized_name (body_name req)))
                 \<and> coll (genre_name g) (sanitized_name (body_name req))
                 \<and> genre_create_post coll new_id req w =
                     w\<lparr>trace := trace w @
                        [Db (OpGenreFindOne (sanitized_name (body_name req))), Redirect (url g)]\<rparr>
          else genre_create_post coll new_id req w =
                 w\<lparr>genres := genres w @
                      [\<lparr>genre_id = new_id, genre_name = sanitized_name (body_name req)\<rparr>],
                   trace := trace w @
                      [Db (OpGenreFindOne (sanitized_name (body_name req))),
                       Db (OpGenreSave
                             \<lparr>genre_id = new_id, genre_name = sanitized_name (body_name req)\<rparr>),
                       Redirect (''/catalog/genre/'' @ new_id)]\<rparr>)"
proof (cases "find (\<lambda>g. coll (genre_name g) (sanitized_name (body_name req))) (genres w)")
  case None
  then have no: "\<not> (\<exists>g\<in>set (genres w). coll (genre_name g) (sanitized_name (body_name req)))"
    by (simp add: find_None_iff)
  from None fresh have "genre_create_post coll new_id req w =
                 w\<lparr>genres := genres w @
                      [\<lparr>genre_id = new_id, genre_name = sanitized_name (body_name req)\<rparr>],
                   trace := trace w @
                      [Db (OpGenreFindOne (sanitized_name (body_name req))),
                       Db (OpGenreSave
                             \<lparr>genre_id = new_id, genre_name = sanitized_name (body_name req)\<rparr>),
                       Redirect (''/catalog/genre/'' @ new_id)]\<rparr>"
    by (simp add: genre_create_post_def validation_errors_ok [OF len] Genre_findOne_name_def
        Genre_save_def res_redirect_def emit_def Let_def url_def)
  with no show ?thesis by simp
next
  case (Some g)
  from find_Some_first [OF Some] obtain pre post
    where split: "genres w = pre @ g # post"
      and before: "\<forall>h\<in>set pre. \<not> coll (genre_name h) (sanitized_name (body_name req))"
      and hit: "coll (genre_name g) (sanitized_name (body_name req))"
    by blast
  from split have mem: "g \<in> set (genres w)" by simp
  from Some have run: "genre_create_post coll new_id req w =
                   w\<lparr>trace := trace w @
                      [Db (OpGenreFindOne (sanitized_name (body_name req))), Redirect (url g)]\<rparr>"
    by (simp add: genre_create_post_def validation_errors_ok [OF len] Genre_findOne_name_def
        res_redirect_def emit_def Let_def)
  from mem hit have ex: "\<exists>g\<in>set (genres w). coll (genre_name g) (sanitized_name (body_name req))"
    by blast
  from split before hit run
  have "\<exists>pre g post.
                 genres w = pre @ g # post
                 \<and> (\<forall>h\<in>set pre. \<not> coll (genre_name h) (sanitized_name (body_name req)))
                 \<and> coll (genre_name g) (sanitized_name (body_name req))
                 \<and> genre_create_post coll new_id req w =
                     w\<lparr>trace := trace w @
                        [Db (OpGenreFindOne (sanitized_name (body_name req))), Redirect (url g)]\<rparr>"
    by blast
  with ex show ?thesis by simp
qed

text \<open>Both branches at a collection that holds the Genres Fantasy and FANTASY, in this
  order: the name \<^verbatim>\<open>"  fantasy "\<close> is redirected to the first of them, the name
  \<^verbatim>\<open>"Poetry"\<close> is added.\<close>

theorem genre_create_post_valid_witness:
  "3 \<le> length (trim ''  fantasy '')
   \<and> ''g3'' \<notin> set (map genre_id [\<lparr>genre_id = ''g1'', genre_name = ''Fantasy''\<rparr>,
                                   \<lparr>genre_id = ''g2'', genre_name = ''FANTASY''\<rparr>])
   \<and> ascii_ci ''Fantasy'' (sanitized_name ''  fantasy '')
   \<and> ascii_ci ''FANTASY'' (sanitized_name ''  fantasy '')
   \<and> genre_create_post ascii_ci ''g3''
        \<lparr>params_id = [], body_name = ''  fantasy '', body_genreid = []\<rparr>
        \<lparr>genres = [\<lparr>genre_id = ''g1'', genre_name = ''Fantasy''\<rparr>,
                   \<lparr>genre_id = ''g2'', genre_name = ''FANTASY''\<rparr>], books = [], trace = []\<rparr>
      = \<lparr>genres = [\<lparr>genre_id = ''g1'', genre_name = ''Fantasy''\<rparr>,
                   \<lparr>genre_id = ''g2'', genre_name = ''FANTASY''\<rparr>], books = [],
         trace = [Db (OpGenreFindOne ''fantasy''), Redirect ''/catalog/genre/g1'']\<rparr>
   \<and> 3 \<le> length (trim ''Poetry'')
   \<and> \<not> ascii_ci ''Fantasy'' (sanitized_name ''Poetry'')
   \<and> \<not> ascii_ci ''FANTASY'' (sanitized_name ''Poetry'')
   \<and> genre_create_post ascii_ci ''g3''
        \<lparr>params_id = [], body_name = ''Poetry'', body_genreid = []\<rparr>
        \<lparr>genres = [\<lparr>genre_id = ''g1'', genre_name = ''Fantasy''\<rparr>,
                   \<lparr>genre_id = ''g2'', genre_name = ''FANTASY''\<rparr>], books = [], trace = []\<rparr>
      = \<lparr>genres = [\<lparr>genre_id = ''g1'', genre_name = ''Fantasy''\<rparr>,
                   \<lparr>genre_id = ''g2'', genre_name = ''FANTASY''\<rparr>,
                   \<lparr>genre_id = ''g3'', genre_name = ''Poetry''\<rparr>],
         books = [],
         trace = [Db (OpGenreFindOne ''Poetry''),
                  Db (OpGenreSave \<lparr>genre_id = ''g3'', genre_name = ''Poetry''\<rparr>),
                  Redirect ''/catalog/genre/g3'']\<rparr>"
proof -
  let ?g1 = "\<lparr>genre_id = ''g1'', genre_name = ''Fantasy''\<rparr>"
  let ?g2 = "\<lparr>genre_id = ''g2'', genre_name = ''FANTASY''\<rparr>"
  let ?w = "\<lparr>genres = [?g1, ?g2], books = [], trace = []\<rparr>"
  let ?r1 = "\<lparr>params_id = [], body_name = ''  fantasy '', body_genreid = []\<rparr>"
  let ?r2 = "\<lparr>params_id = [], body_name = ''Poetry'', body_genreid = []\<rparr>"
  have len1: "3 \<le> length (trim (body_name ?r1))" by code_simp
  have len2: "3 \<le> length (trim (body_name ?r2))" by code_simp
  have fresh: "''g3'' \<notin> set (map genre_id (genres ?w))" by code_simp
  have s1: "sanitized_name ''  fantasy '' = ''fantasy''" by code_simp
  have s2: "sanitized_name ''Poetry'' = ''Poetry''" by code_simp
  have c1: "ascii_ci ''Fantasy'' ''fantasy''" by code_simp
  have c2: "\<not> ascii_ci ''Fantasy'' ''Poetry''" by code_simp
  have c3: "ascii_ci ''FANTASY'' ''fantasy''" by code_simp
  have c4: "\<not> ascii_ci ''FANTASY'' ''Poetry''" by code_simp
  have t1: "trim ''  fantasy '' = ''fantasy''" by code_simp
  have t2: "trim ''Poetry'' = ''Poetry''" by code_simp
  from genre_create_post_valid [where coll = ascii_ci, OF len1 fresh]
  obtain pre g post where split: "[?g1, ?g2] = pre @ g # post"
    and before: "\<forall>h\<in>set pre. \<not> ascii_ci (genre_name h) ''fantasy''"
    and run1: "genre_create_post ascii_ci ''g3'' ?r1 ?w =
                 ?w\<lparr>trace := trace ?w @ [Db (OpGenreFindOne ''fantasy''), Redirect (url g)]\<rparr>"
    by (auto simp add: s1 c1)
  have "pre = []"
  proof (cases pre)
    case Nil
    then show ?thesis .
  next
    case (Cons a list)
    with split have "a = ?g1" by simp
    with Cons before c1 show ?thesis by simp
  qed
  with split have g: "g = ?g1" by simp
  from genre_create_post_valid [where coll = ascii_ci, OF len2 fresh]
  have run2: "genre_create_post ascii_ci ''g3'' ?r2 ?w =
      \<lparr>genres = [?g1, ?g2, \<lparr>genre_id = ''g3'', genre_name = ''Poetry''\<rparr>],
         books = [],
         trace = [Db (OpGenreFindOne ''Poetry''),
                  Db (OpGenreSave \<lparr>genre_id = ''g3'', genre_name = ''Poetry''\<rparr>),
                  Redirect ''/catalog/genre/g3'']\<rparr>"
    by (simp add: s2 c2 c4)
  show ?thesis
    using run1 run2 by (simp add: g s1 s2 c1 c2 c3 c4 t1 t2 url_def)
qed

text \<open>
  C1 as it was stated compares the stored names with the submitted name; the handler
  compares them with the escaped one. Creating \<^verbatim>\<open>R&B\<close> in an empty collection stores
  \<^verbatim>\<open>R&amp;B\<close>. Submitting \<^verbatim>\<open>R&B\<close> again finds that document, although its name
  is not equal to the submitted one, and adds nothing. And where a Genre named
  \<^verbatim>\<open>R&B\<close> is in the collection, submitting \<^verbatim>\<open>R&B\<close> does not find it and adds a
  second Genre.
\<close>

theorem genre_create_post_submitted_name_counterexample:
  "3 \<le> length (trim ''R&B'')
   \<and> genres (genre_create_post ascii_ci ''g1''
        \<lparr>params_id = [], body_name = ''R&B'', body_genreid = []\<rparr>
        \<lparr>genres = [], books = [], trace = []\<rparr>)
      = [\<lparr>genre_id = ''g1'', genre_name = ''R&amp;B''\<rparr>]
   \<and> \<not> ascii_ci ''R&amp;B'' ''R&B''
   \<and> genre_create_post ascii_ci ''g2''
        \<lparr>params_id = [], body_name = ''R&B'', body_genreid = []\<rparr>
        \<lparr>genres = [\<lparr>genre_id = ''g1'', genre_name = ''R&amp;B''\<rparr>], books = [], trace = []\<rparr>
      = \<lparr>genres = [\<lparr>genre_id = ''g1'', genre_name = ''R&amp;B''\<rparr>], books = [],
         trace = [Db (OpGenreFindOne ''R&amp;B''), Redirect ''/catalog/genre/g1'']\<rparr>
   \<and> ascii_ci ''R&B'' ''R&B''
   \<and> genre_create_post ascii_ci ''g2''
        \<lparr>params_id = [], body_name = ''R&B'', body_genreid = []\<rparr>
        \<lparr>genres = [\<lparr>genre_id = ''g1'', genre_name = ''R&B''\<rparr>], books = [], trace = []\<rparr>
      = \<lparr>genres = [\<lparr>genre_id = ''g1'', genre_name = ''R&B''\<rparr>,
                   \<lparr>genre_id = ''g2'', genre_name = ''R&amp;B''\<rparr>],
         books = [],
         trace = [Db (OpGenreFindOne ''R&amp;B''),
                  Db (OpGenreSave \<lparr>genre_id = ''g2'', genre_name = ''R&amp;B''\<rparr>),
                  Redirect ''/catalog/genre/g2'']\<rparr>"
  by code_simp

subsection \<open>The detail page\<close>

text \<open>The two cases of \<^verbatim>\<open>genre_detail\<close>: the path is not an identifier, and it is
  one.\<close>

lemma genre_detail_cast_failed:
  assumes "cast (params_id req) = None"
  shows "genre_detail cast req w =
           w\<lparr>trace := trace w @
              [Db (OpGenreFindById (params_id req)), Db (OpBookFind (params_id req)),
               Next (CastError (params_id req))]\<rparr>"
  using assms
  by (simp add: genre_detail_def Genre_findById_def Book_find_title_summary_def promise_all_def
      next_err_def emit_def)

lemma genre_detail_cast_ok:
  assumes cast: "cast (params_id req) = Some i"
  shows "(if \<exists>g\<in>set (genres w). genre_id g = i
          then \<exists>pre g post.
                 genres w = pre @ g # post \<and> (\<forall>h\<in>set pre. genre_id h \<noteq> i) \<and> genre_id g = i
                 \<and> genre_detail cast req w =
                     w\<lparr>trace := trace w @
                        [Db (OpGenreFindById (params_id req)), Db (OpBookFind (params_id req)),
                         Render ''genre_detail''
                           (GenreDetailLocals ''Genre Detail'' g
                              (map project_title_summary
                                 (filter (\<lambda>b. i \<in> set (book_genre b)) (books w))))]\<rparr>
                 \<and> http_status
                      (Render ''genre_detail''
                         (GenreDetailLocals ''Genre Detail'' g
                            (map project_title_summary
                               (filter (\<lambda>b. i \<in> set (book_genre b)) (books w))))) = Some 200
          else genre_detail cast req w =
                 w\<lparr>trace := trace w @
                    [Db (OpGenreFindById (params_id req)), Db (OpBookFind (params_id req)),
                     Next (StatusError ''Genre not found'' 404)]\<rparr>)"
proof (cases "find_by_id i (genres w)")
  case None
  then have "\<not> (\<exists>g\<in>set (genres w). genre_id g = i)"
    by (metis find_by_id_None id_mem_iff)
  moreover from None cast have "genre_detail cast req w =
           w\<lparr>trace := trace w @
              [Db (OpGenreFindById (params_id req)), Db (OpBookFind (params_id req)),
               Next (StatusError ''Genre not found'' 404)]\<rparr>"
    by (simp add: genre_detail_def Genre_findById_def Book_find_title_summary_def
        promise_all_def next_err_def emit_def)
  ultimately show ?thesis by simp
next
  case (Some g)
  then have "find (\<lambda>g. genre_id g = i) (genres w) = Some g"
    by (simp add: find_by_id_def)
  from find_Some_first [OF this] obtain pre post
    where split: "genres w = pre @ g # post"
      and before: "\<forall>h\<in>set pre. genre_id h \<noteq> i"
      and hit: "genre_id g = i"
    by blast
  from split hit have ex: "\<exists>g\<in>set (genres w). genre_id g = i" by auto
  from Some cast have run: "genre_detail cast req w =
             w\<lparr>trace := trace w @
                [Db (OpGenreFindById (params_id req)), Db (OpBookFind (params_id req)),
                 Render ''genre_detail''
                   (GenreDetailLocals ''Genre Detail'' g
                      (map project_title_summary
                         (filter (\<lambda>b. i \<in> set (book_genre b)) (books w))))]\<rparr>"
    by (simp add: genre_detail_def Genre_findById_def Book_find_title_summary_def
        promise_all_def books_in_genre_def res_render_def emit_def)
  from split before hit run
  have "\<exists>pre g post.
                 genres w = pre @ g # post \<and> (\<forall>h\<in>set pre. genre_id h \<noteq> i) \<and> genre_id g = i
                 \<and> genre_detail cast req w =
                     w\<lparr>trace := trace w @
                        [Db (OpGenreFindById (params_id req)), Db (OpBookFind (params_id req)),
                         Render ''genre_detail''
                           (GenreDetailLocals ''Genre Detail'' g
                              (map project_title_summary
                                 (filter (\<lambda>b. i \<in> set (book_genre b)) (books w))))]\<rparr>
                 \<and> http_status
                      (Render ''genre_detail''
                         (GenreDetailLocals ''Genre Detail'' g
                            (map project_title_summary
                               (filter (\<lambda>b. i \<in> set (book_genre b)) (books w))))) = Some 200"
    by auto
  with ex show ?thesis by simp
qed

text \<open>
  C5, as amended. \<^verbatim>\<open>genre_detail\<close> starts the query for the Genre and the query for
  the Books of the path's identifier. When the path is an identifier and no Genre has it,
  the handler renders nothing and passes the error \<^verbatim>\<open>Genre not found\<close> with status
  404 to \<^verbatim>\<open>next\<close>. When a Genre has it, the handler renders the view
  \<^verbatim>\<open>genre_detail\<close>, with status 200, with that Genre (the first of the collection
  with the identifier) and with the Books whose genre references include the identifier
  (their title and summary). When the path is not an identifier, the queries reject, and
  the handler renders nothing and passes the CastError, which has no status, to
  \<^verbatim>\<open>next\<close>.
\<close>

theorem genre_detail_found_or_404:
  "(case cast (params_id req) of
      None \<Rightarrow>
        genre_detail cast req w =
          w\<lparr>trace := trace w @
             [Db (OpGenreFindById (params_id req)), Db (OpBookFind (params_id req)),
              Next (CastError (params_id req))]\<rparr>
    | Some i \<Rightarrow>
        (if \<exists>g\<in>set (genres w). genre_id g = i
         then \<exists>pre g post.
                genres w = pre @ g # post \<and> (\<forall>h\<in>set pre. genre_id h \<noteq> i) \<and> genre_id g = i
                \<and> genre_detail cast req w =
                    w\<lparr>trace := trace w @
                       [Db (OpGenreFindById (params_id req)), Db (OpBookFind (params_id req)),
                        Render ''genre_detail''
                          (GenreDetailLocals ''Genre Detail'' g
                             (map project_title_summary
                                (filter (\<lambda>b. i \<in> set (book_genre b)) (books w))))]\<rparr>
                \<and> http_status
                     (Render ''genre_detail''
                        (GenreDetailLocals ''Genre Detail'' g
                           (map project_title_summary
                              (filter (\<lambda>b. i \<in> set (book_genre b)) (books w))))) = Some 200
         else genre_detail cast req w =
                w\<lparr>trace := trace w @
                   [Db (OpGenreFindById (params_id req)), Db (OpBookFind (params_id req)),
                    Next (StatusError ''Genre not found'' 404)]\<rparr>))"
proof (cases "cast (params_id req)")
  case None
  then show ?thesis by (simp add: genre_detail_cast_failed)
next
  case (Some i)
  from genre_detail_cast_ok [where cast = cast and req = req and i = i and w = w] Some
  show ?thesis by simp
qed

text \<open>Two Books, one of which references the Genre; and an identifier no Genre has.\<close>

theorem genre_detail_found_or_404_witness:
  "cast_hex24 ''650000000000000000000001'' = Some ''650000000000000000000001''
   \<and> genre_detail cast_hex24
       \<lparr>params_id = ''650000000000000000000001'', body_name = [], body_genreid = []\<rparr>
       \<lparr>genres = [\<lparr>genre_id = ''650000000000000000000001'', genre_name = ''Fantasy''\<rparr>],
        books = [\<lparr>book_id = ''b1'', book_title = ''Dune'', book_summary = ''Sand'',
                  book_genre = [''650000000000000000000009'']\<rparr>,
                 \<lparr>book_id = ''b2'', book_title = ''Emma'', book_summary = ''Match'',
                  book_genre = [''650000000000000000000009'', ''650000000000000000000001'']\<rparr>],
        trace = []\<rparr>
     = \<lparr>genres = [\<lparr>genre_id = ''650000000000000000000001'', genre_name = ''Fantasy''\<rparr>],
        books = [\<lparr>book_id = ''b1'', book_title = ''Dune'', book_summary = ''Sand'',
                  book_genre = [''650000000000000000000009'']\<rparr>,
                 \<lparr>book_id = ''b2'', book_title = ''Emma'', book_summary = ''Match'',
                  book_genre = [''650000000000000000000009'', ''650000000000000000000001'']\<rparr>],
        trace = [Db (OpGenreFindById ''650000000000000000000001''),
                 Db (OpBookFind ''650000000000000000000001''),
                 Render ''genre_detail''
                   (GenreDetailLocals ''Genre Detail''
                      \<lparr>genre_id = ''650000000000000000000001'', genre_name = ''Fantasy''\<rparr>
                      [\<lparr>brief_id = ''b2'', brief_title = ''Emma'', brief_summary = ''Match''\<rparr>])]\<rparr>
   \<and> cast_hex24 ''650000000000000000000007'' = Some ''650000000000000000000007''
   \<and> genre_detail cast_hex24
       \<lparr>params_id = ''650000000000000000000007'', body_name = [], body_genreid = []\<rparr>
       \<lparr>genres = [\<lparr>genre_id = ''650000000000000000000001'', genre_name = ''Fantasy''\<rparr>],
        books = [], trace = []\<rparr>
     = \<lparr>genres = [\<lparr>genre_id = ''650000000000000000000001'', genre_name = ''Fantasy''\<rparr>],
        books = [],
        trace = [Db (OpGenreFindById ''650000000000000000000007''),
                 Db (OpBookFind ''650000000000000000000007''),
                 Next (StatusError ''Genre not found'' 404)]\<rparr>"
proof -
  let ?g1 = "\<lparr>genre_id = ''650000000000000000000001'', genre_name = ''Fantasy''\<rparr>"
  let ?r1 = "\<lparr>params_id = ''650000000000000000000001'', body_name = [], body_genreid = []\<rparr>"
  let ?r7 = "\<lparr>params_id = ''650000000000000000000007'', body_name = [], body_genreid = []\<rparr>"
  let ?w1 = "\<lparr>genres = [?g1],
        books = [\<lparr>book_id = ''b1'', book_title = ''Dune'', book_summary = ''Sand'',
                  book_genre = [''650000000000000000000009'']\<rparr>,
                 \<lparr>book_id = ''b2'', book_title = ''Emma'', book_summary = ''Match'',
                  book_genre = [''650000000000000000000009'', ''650000000000000000000001'']\<rparr>],
        trace = []\<rparr>"
  let ?w7 = "\<lparr>genres = [?g1], books = [], trace = []\<rparr>"
  have c1: "cast_hex24 (params_id ?r1) = Some ''650000000000000000000001''" by code_simp
  have c7: "cast_hex24 (params_id ?r7) = Some ''650000000000000000000007''" by code_simp
  have c1': "cast_hex24 ''650000000000000000000001'' = Some ''650000000000000000000001''"
    by code_simp
  have c7': "cast_hex24 ''650000000000000000000007'' = Some ''650000000000000000000007''"
    by code_simp
  from genre_detail_found_or_404 [where cast = cast_hex24 and req = ?r1 and w = ?w1]
  obtain pre g post where split: "[?g1] = pre @ g # post"
    and run1: "genre_detail cast_hex24 ?r1 ?w1 =
                     ?w1\<lparr>trace := trace ?w1 @
                        [Db (OpGenreFindById (params_id ?r1)), Db (OpBookFind (params_id ?r1)),
                         Render ''genre_detail''
                           (GenreDetailLocals ''Genre Detail'' g
                              (map project_title_summary
                                 (filter (\<lambda>b. ''650000000000000000000001'' \<in> set (book_genre b))
                                    (books ?w1))))]\<rparr>"
    by (auto simp add: c1')
  from split have g: "g = ?g1" by (cases pre) simp_all
  from genre_detail_found_or_404 [where cast = cast_hex24 and req = ?r7 and w = ?w7]
  have run7: "genre_detail cast_hex24 ?r7 ?w7 =
       \<lparr>genres = [?g1], books = [],
        trace = [Db (OpGenreFindById ''650000000000000000000007''),
                 Db (OpBookFind ''650000000000000000000007''),
                 Next (StatusError ''Genre not found'' 404)]\<rparr>"
    by (simp add: c7')
  show ?thesis
    using run1 run7 by (simp add: g c1' c7' project_title_summary_def)
qed

text \<open>
  C5 as it was stated promises the 404 for every path under which no Genre exists. The
  path \<^verbatim>\<open>nonexistent-id\<close> is not an identifier: no Genre has it, and what is passed
  to \<^verbatim>\<open>next\<close> is the CastError of the query, not the error with status 404.
\<close>

theorem genre_detail_malformed_id_counterexample:
  "cast_hex24 ''nonexistent-id'' = None
   \<and> genre_id \<lparr>genre_id = ''650000000000000000000001'', genre_name = ''Fantasy''\<rparr>
       \<noteq> ''nonexistent-id''
   \<and> genre_detail cast_hex24
       \<lparr>params_id = ''nonexistent-id'', body_name = [], body_genreid = []\<rparr>
       \<lparr>genres = [\<lparr>genre_id = ''650000000000000000000001'', genre_name = ''Fantasy''\<rparr>],
        books = [], trace = []\<rparr>
     = \<lparr>genres = [\<lparr>genre_id = ''650000000000000000000001'', genre_name = ''Fantasy''\<rparr>],
        books = [],
        trace = [Db (OpGenreFindById ''nonexistent-id''), Db (OpBookFind ''nonexistent-id''),
                 Next (CastError ''nonexistent-id'')]\<rparr>
   \<and> Next (CastError ''nonexistent-id'') \<noteq> Next (StatusError ''Genre not found'' 404)"
  by code_simp

subsection \<open>Updating a Genre\<close>

text \<open>
  C3, as amended. An update request with a valid name (trimmed length at least 3) for an
  identifier some Genre has: afterwards the Genre found under that identifier has the same
  identifier and the sanitized name (the submitted name trimmed and escaped); the
  collection has the same identifiers at the same places, so no document with another
  identifier was created; the documents of other identifiers and the Books are as before;
  and the response is a redirect to the detail URL of the updated document.
\<close>

theorem genre_update_post_valid:
  assumes len: "3 \<le> length (trim (body_name req))"
      and ex: "\<exists>g\<in>set (genres w). genre_id g = params_id req"
  shows "find_by_id (params_id req) (genres (genre_update_post req w)) =
           Some \<lparr>genre_id = params_id req, genre_name = sanitized_name (body_name req)\<rparr>
         \<and> map genre_id (genres (genre_update_post req w)) = map genre_id (genres w)
         \<and> filter (\<lambda>g. genre_id g \<noteq> params_id req) (genres (genre_update_post req w)) =
             filter (\<lambda>g. genre_id g \<noteq> params_id req) (genres w)
         \<and> books (genre_update_post req w) = books w
         \<and> trace (genre_update_post req w) =
             trace w @
               [Db (OpGenreFindByIdAndUpdate (params_id req)
                      \<lparr>genre_id = params_id req, genre_name = sanitized_name (body_name req)\<rparr>),
                Redirect (''/catalog/genre/'' @ params_id req)]"
proof -
  from ex have mem: "params_id req \<in> set (map genre_id (genres w))"
    by (metis id_mem_iff)
  then obtain g where g: "find_by_id (params_id req) (genres w) = Some g"
    by (cases "find_by_id (params_id req) (genres w)") (auto simp: find_by_id_None)
  then have gid: "genre_id g = params_id req" by (simp add: find_by_id_Some)
  have run: "genre_update_post req w =
      w\<lparr>genres := update_first (params_id req)
                    \<lparr>genre_id = params_id req, genre_name = sanitized_name (body_name req)\<rparr>
                    (genres w),
        trace := trace w @
               [Db (OpGenreFindByIdAndUpdate (params_id req)
                      \<lparr>genre_id = params_id req, genre_name = sanitized_name (body_name req)\<rparr>),
                Redirect (''/catalog/genre/'' @ params_id req)]\<rparr>"
    using g gid
    by (simp add: genre_update_post_def validation_errors_ok [OF len] Genre_findByIdAndUpdate_def
        res_redirect_def emit_def Let_def url_def)
  show ?thesis
    using mem by (simp add: run update_first_find update_first_ids update_first_others)
qed

text \<open>Renaming the first of two Genres.\<close>

theorem genre_update_post_valid_witness:
  "3 \<le> length (trim ''  Jazz '')
   \<and> genre_id \<lparr>genre_id = ''g1'', genre_name = ''Blues''\<rparr> = ''g1''
   \<and> genre_update_post \<lparr>params_id = ''g1'', body_name = ''  Jazz '', body_genreid = []\<rparr>
        \<lparr>genres = [\<lparr>genre_id = ''g1'', genre_name = ''Blues''\<rparr>,
                   \<lparr>genre_id = ''g2'', genre_name = ''Rock''\<rparr>], books = [], trace = []\<rparr>
      = \<lparr>genres = [\<lparr>genre_id = ''g1'', genre_name = ''Jazz''\<rparr>,
                   \<lparr>genre_id = ''g2'', genre_name = ''Rock''\<rparr>], books = [],
         trace = [Db (OpGenreFindByIdAndUpdate ''g1'' \<lparr>genre_id = ''g1'', genre_name = ''Jazz''\<rparr>),
                  Redirect ''/catalog/genre/g1'']\<rparr>
   \<and> find_by_id ''g1''
        (genres (genre_update_post \<lparr>params_id = ''g1'', body_name = ''  Jazz '', body_genreid = []\<rparr>
           \<lparr>genres = [\<lparr>genre_id = ''g1'', genre_name = ''Blues''\<rparr>,
                      \<lparr>genre_id = ''g2'', genre_name = ''Rock''\<rparr>], books = [], trace = []\<rparr>))
      = Some \<lparr>genre_id = ''g1'', genre_name = ''Jazz''\<rparr>"
proof -
  let ?req = "\<lparr>params_id = ''g1'', body_name = ''  Jazz '', body_genreid = []\<rparr>"
  let ?w = "\<lparr>genres = [\<lparr>genre_id = ''g1'', genre_name = ''Blues''\<rparr>,
                   \<lparr>genre_id = ''g2'', genre_name = ''Rock''\<rparr>], books = [], trace = []\<rparr>"
  have len: "3 \<le> length (trim (body_name ?req))" by code_simp
  have ex: "\<exists>g\<in>set (genres ?w). genre_id g = params_id ?req" by simp
  have s: "sanitized_name ''  Jazz '' = ''Jazz''" by code_simp
  have run: "genre_update_post ?req ?w
      = \<lparr>genres = [\<lparr>genre_id = ''g1'', genre_name = ''Jazz''\<rparr>,
                   \<lparr>genre_id = ''g2'', genre_name = ''Rock''\<rparr>], books = [],
         trace = [Db (OpGenreFindByIdAndUpdate ''g1'' \<lparr>genre_id = ''g1'', genre_name = ''Jazz''\<rparr>),
                  Redirect ''/catalog/genre/g1'']\<rparr>"
    by code_simp
  show ?thesis
    using genre_update_post_valid [OF len ex] len by (simp add: s run)
qed

text \<open>
  C3 as it was stated has the stored name equal to the submitted one. Updating a Genre with
  the name \<^verbatim>\<open>R&B\<close>, which is valid, stores \<^verbatim>\<open>R&amp;B\<close>.
\<close>

theorem genre_update_post_submitted_name_counterexample:
  "3 \<le> length (trim ''R&B'')
   \<and> find_by_id ''g1''
        (genres (genre_update_post \<lparr>params_id = ''g1'', body_name = ''R&B'', body_genreid = []\<rparr>
           \<lparr>genres = [\<lparr>genre_id = ''g1'', genre_name = ''Blues''\<rparr>], books = [], trace = []\<rparr>))
      = Some \<lparr>genre_id = ''g1'', genre_name = ''R&amp;B''\<rparr>
   \<and> ''R&amp;B'' \<noteq> ''R&B''"
  by code_simp



text \<open>
  C10. A create or an update request that fails validation (trimmed name shorter than 3)
  issues no database operation: the database operations in the trace after the handler
  are those before it, and the Genre and Book collections are unchanged.
\<close>

theorem invalid_name_no_db_operation:
  assumes short: "length (trim (body_name req)) < 3"
  shows "filter is_db (trace (genre_create_post coll new_id req w)) = filter is_db (trace w)
         \<and> genres (genre_create_post coll new_id req w) = genres w
         \<and> books (genre_create_post coll new_id req w) = books w
         \<and> filter is_db (trace (genre_update_post req w)) = filter is_db (trace w)
         \<and> genres (genre_update_post req w) = genres w
         \<and> books (genre_update_post req w) = books w"
  by (simp add: genre_create_post_def genre_update_post_def validation_errors_short [OF short]
      res_render_def emit_def Let_def)

text \<open>The name \<^verbatim>\<open>"ab"\<close> sent to both handlers.\<close>

theorem invalid_name_no_db_operation_witness:
  "length (trim ''ab'') < 3
   \<and> filter is_db (trace (genre_create_post ascii_ci ''g2''
        \<lparr>params_id = ''g1'', body_name = ''ab'', body_genreid = []\<rparr>
        \<lparr>genres = [\<lparr>genre_id = ''g1'', genre_name = ''Blues''\<rparr>], books = [], trace = []\<rparr>)) = []
   \<and> filter is_db (trace (genre_update_post
        \<lparr>params_id = ''g1'', body_name = ''ab'', body_genreid = []\<rparr>
        \<lparr>genres = [\<lparr>genre_id = ''g1'', genre_name = ''Blues''\<rparr>], books = [], trace = []\<rparr>)) = []
   \<and> genres (genre_update_post
        \<lparr>params_id = ''g1'', body_name = ''ab'', body_genreid = []\<rparr>
        \<lparr>genres = [\<lparr>genre_id = ''g1'', genre_name = ''Blues''\<rparr>], books = [], trace = []\<rparr>)
      = [\<lparr>genre_id = ''g1'', genre_name = ''Blues''\<rparr>]"
proof -
  let ?req = "\<lparr>params_id = ''g1'', body_name = ''ab'', body_genreid = []\<rparr>"
  have short: "length (trim (body_name ?req)) < 3" by code_simp
  show ?thesis
    using invalid_name_no_db_operation [where coll = ascii_ci and new_id = "''g2''"
        and w = "\<lparr>genres = [\<lparr>genre_id = ''g1'', genre_name = ''Blues''\<rparr>], books = [], trace = []\<rparr>",
        OF short] short
    by simp
qed

subsection \<open>Deleting a Genre\<close>

text \<open>
  C8. \<^verbatim>\<open>genre_delete_post\<close> decides by the Books that reference the identifier of the
  path, and deletes the Genre of the identifier in the form field \<^verbatim>\<open>genreid\<close>. When
  the two differ, the handler issues no Book query for the identifier it deletes. A path or
  a form field that is not an identifier makes the query that is given it reject, and
  nothing is deleted.
\<close>

theorem genre_delete_post_checks_path_deletes_body:
  "genre_delete_post cast req w =
     (case cast (params_id req) of
        None \<Rightarrow>
          w\<lparr>trace := trace w @
             [Db (OpGenreFindById (params_id req)), Db (OpBookFind (params_id req)),
              Next (CastError (params_id req))]\<rparr>
      | Some i \<Rightarrow>
          if filter (\<lambda>b. i \<in> set (book_genre b)) (books w) = []
          then (case cast (body_genreid req) of
                  None \<Rightarrow>
                    w\<lparr>trace := trace w @
                       [Db (OpGenreFindById (params_id req)), Db (OpBookFind (params_id req)),
                        Db (OpGenreFindByIdAndDelete (body_genreid req)),
                        Next (CastError (body_genreid req))]\<rparr>
                | Some j \<Rightarrow>
                    w\<lparr>genres := delete_first j (genres w),
                      trace := trace w @
                        [Db (OpGenreFindById (params_id req)), Db (OpBookFind (params_id req)),
                         Db (OpGenreFindByIdAndDelete (body_genreid req)),
                         Redirect ''/catalog/genres'']\<rparr>)
          else w\<lparr>trace := trace w @
                  [Db (OpGenreFindById (params_id req)), Db (OpBookFind (params_id req)),
                   Render ''genre_delete''
                     (GenreDeleteLocals ''Delete Genre'' (find_by_id i (genres w))
                        (map (populate_genre (genres w))
                           (filter (\<lambda>b. i \<in> set (book_genre b)) (books w))))]\<rparr>)
   \<and> (params_id req \<noteq> body_genreid req \<longrightarrow>
        Db (OpBookFind (body_genreid req)) \<notin>
          set (drop (length (trace w)) (trace (genre_delete_post cast req w))))"
  by (simp add: genre_delete_post_def Genre_findById_def Book_find_populate_def promise_all_def
      books_in_genre_def Genre_findByIdAndDelete_def res_render_def res_redirect_def next_err_def
      emit_def Let_def split: option.splits)

text \<open>A request whose path names the Genre Blues and whose form names the Genre Rock:
  the Books of Blues are queried, Rock is deleted.\<close>

theorem genre_delete_post_checks_path_deletes_body_witness:
  "''650000000000000000000001'' \<noteq> ''650000000000000000000002''
   \<and> cast_hex24 ''650000000000000000000001'' = Some ''650000000000000000000001''
   \<and> cast_hex24 ''650000000000000000000002'' = Some ''650000000000000000000002''
   \<and> genre_delete_post cast_hex24
       \<lparr>params_id = ''650000000000000000000001'', body_name = [],
        body_genreid = ''650000000000000000000002''\<rparr>
       \<lparr>genres = [\<lparr>genre_id = ''650000000000000000000001'', genre_name = ''Blues''\<rparr>,
                  \<lparr>genre_id = ''650000000000000000000002'', genre_name = ''Rock''\<rparr>],
        books = [\<lparr>book_id = ''b1'', book_title = ''Dune'', book_summary = ''Sand'',
                  book_genre = [''650000000000000000000002'']\<rparr>],
        trace = []\<rparr>
     = \<lparr>genres = [\<lparr>genre_id = ''650000000000000000000001'', genre_name = ''Blues''\<rparr>],
        books = [\<lparr>book_id = ''b1'', book_title = ''Dune'', book_summary = ''Sand'',
                  book_genre = [''650000000000000000000002'']\<rparr>],
        trace = [Db (OpGenreFindById ''650000000000000000000001''),
                 Db (OpBookFind ''650000000000000000000001''),
                 Db (OpGenreFindByIdAndDelete ''650000000000000000000002''),
                 Redirect ''/catalog/genres'']\<rparr>"
proof -
  have c1: "cast_hex24 ''650000000000000000000001'' = Some ''650000000000000000000001''"
    by code_simp
  have c2: "cast_hex24 ''650000000000000000000002'' = Some ''650000000000000000000002''"
    by code_simp
  show ?thesis
    using genre_delete_post_checks_path_deletes_body
      [where cast = cast_hex24
         and req = "\<lparr>params_id = ''650000000000000000000001'', body_name = [],
                     body_genreid = ''650000000000000000000002''\<rparr>"
         and w = "\<lparr>genres = [\<lparr>genre_id = ''650000000000000000000001'', genre_name = ''Blues''\<rparr>,
                  \<lparr>genre_id = ''650000000000000000000002'', genre_name = ''Rock''\<rparr>],
        books = [\<lparr>book_id = ''b1'', book_title = ''Dune'', book_summary = ''Sand'',
                  book_genre = [''650000000000000000000002'']\<rparr>],
        trace = []\<rparr>"]
    by (simp add: c1 c2)
qed

text \<open>When the path and the form name the same Genre, the handler blocks the deletion
  exactly while a Book references it.\<close>

lemma genre_delete_post_same_id:
  assumes same: "body_genreid req = params_id req"
      and cast: "cast (params_id req) = Some i"
  shows "(if \<exists>b\<in>set (books w). i \<in> set (book_genre b)
          then genres (genre_delete_post cast req w) = genres w
             \<and> (\<exists>ls. trace (genre_delete_post cast req w) =
                   trace w @ [Db (OpGenreFindById (params_id req)), Db (OpBookFind (params_id req)),
                              Render ''genre_delete'' ls])
          else genres (genre_delete_post cast req w) = delete_first i (genres w)
             \<and> trace (genre_delete_post cast req w) =
                   trace w @ [Db (OpGenreFindById (params_id req)), Db (OpBookFind (params_id req)),
                              Db (OpGenreFindByIdAndDelete (params_id req)),
                              Redirect ''/catalog/genres''])"
  using cast
  by (auto simp add: genre_delete_post_def Genre_findById_def Book_find_populate_def
      promise_all_def books_in_genre_def Genre_findByIdAndDelete_def res_render_def
      res_redirect_def emit_def Let_def same filter_empty_conv)

text \<open>
  C2. The deletion is meant to be blocked while a Book references the Genre named in the
  form. Here the Book Dune references the Genre Rock, the form names Rock and the path
  names the Genre Folk, which no Book references: the handler deletes Rock and redirects
  to the list, where the Genre should have stayed and the confirmation view been rendered.
\<close>

theorem genre_delete_post_deletes_referenced_genre:
  "cast_hex24 ''650000000000000000000002'' = Some ''650000000000000000000002''
   \<and> cast_hex24 ''650000000000000000000003'' = Some ''650000000000000000000003''
   \<and> books_in_genre ''650000000000000000000002''
     [\<lparr>book_id = ''b1'', book_title = ''Dune'', book_summary = ''Sand'',
       book_genre = [''650000000000000000000002'']\<rparr>]
   = [\<lparr>book_id = ''b1'', book_title = ''Dune'', book_summary = ''Sand'',
       book_genre = [''650000000000000000000002'']\<rparr>]
   \<and> genres (genre_delete_post cast_hex24
       \<lparr>params_id = ''650000000000000000000003'', body_name = [],
        body_genreid = ''650000000000000000000002''\<rparr>
       \<lparr>genres = [\<lparr>genre_id = ''650000000000000000000002'', genre_name = ''Rock''\<rparr>,
                  \<lparr>genre_id = ''650000000000000000000003'', genre_name = ''Folk''\<rparr>],
        books = [\<lparr>book_id = ''b1'', book_title = ''Dune'', book_summary = ''Sand'',
                  book_genre = [''650000000000000000000002'']\<rparr>],
        trace = []\<rparr>)
     = [\<lparr>genre_id = ''650000000000000000000003'', genre_name = ''Folk''\<rparr>]
   \<and> trace (genre_delete_post cast_hex24
       \<lparr>params_id = ''650000000000000000000003'', body_name = [],
        body_genreid = ''650000000000000000000002''\<rparr>
       \<lparr>genres = [\<lparr>genre_id = ''650000000000000000000002'', genre_name = ''Rock''\<rparr>,
                  \<lparr>genre_id = ''650000000000000000000003'', genre_name = ''Folk''\<rparr>],
        books = [\<lparr>book_id = ''b1'', book_title = ''Dune'', book_summary = ''Sand'',
                  book_genre = [''650000000000000000000002'']\<rparr>],
        trace = []\<rparr>)
     = [Db (OpGenreFindById ''650000000000000000000003''),
        Db (OpBookFind ''650000000000000000000003''),
        Db (OpGenreFindByIdAndDelete ''650000000000000000000002''),
        Redirect ''/catalog/genres'']"
  by code_simp

text \<open>The confirmation page of a Genre that exists shows the Books that reference it.\<close>

lemma genre_delete_get_found:
  assumes "cast (params_id req) = Some i" and "find_by_id i (genres w) = Some g"
  shows "genre_delete_get cast req w =
     w\<lparr>trace := trace w @
        [Db (OpGenreFindById (params_id req)), Db (OpBookFind (params_id req)),
         Render ''genre_delete''
           (GenreDeleteLocals ''Delete genre'' (Some g)
              (map (populate_genre (genres w))
                 (filter (\<lambda>b. i \<in> set (book_genre b)) (books w))))]\<rparr>"
  using assms
  by (simp add: genre_delete_get_def Genre_findById_def Book_find_populate_def promise_all_def
      books_in_genre_def res_render_def emit_def)

text \<open>For a Genre that does not exist the handler redirects to the list and then, having
  not returned, calls \<^verbatim>\<open>res.render\<close> of the confirmation view with a null Genre.\<close>

lemma genre_delete_get_missing:
  assumes "cast (params_id req) = Some i" and "find_by_id i (genres w) = None"
  shows "genre_delete_get cast req w =
     w\<lparr>trace := trace w @
        [Db (OpGenreFindById (params_id req)), Db (OpBookFind (params_id req)),
         Redirect ''/catalog/genres'',
         Render ''genre_delete''
           (GenreDeleteLocals ''Delete genre'' None
              (map (populate_genre (genres w))
                 (filter (\<lambda>b. i \<in> set (book_genre b)) (books w))))]\<rparr>"
  using assms
  by (simp add: genre_delete_get_def Genre_findById_def Book_find_populate_def promise_all_def
      books_in_genre_def res_render_def res_redirect_def emit_def)

text \<open>
  C6. For an identifier no Genre has, the response should be the redirect to the list and
  nothing else. The handler calls \<^verbatim>\<open>res.redirect\<close> and, the branch having no
  \<^verbatim>\<open>return\<close>, goes on to call \<^verbatim>\<open>res.render\<close> of the confirmation view with a null
  Genre.
\<close>

theorem genre_delete_get_missing_redirects_then_renders:
  "cast_hex24 ''650000000000000000000007'' = Some ''650000000000000000000007''
   \<and> find_by_id ''650000000000000000000007''
       [\<lparr>genre_id = ''650000000000000000000001'', genre_name = ''Blues''\<rparr>] = None
   \<and> genre_delete_get cast_hex24
       \<lparr>params_id = ''650000000000000000000007'', body_name = [], body_genreid = []\<rparr>
       \<lparr>genres = [\<lparr>genre_id = ''650000000000000000000001'', genre_name = ''Blues''\<rparr>],
        books = [], trace = []\<rparr>
     = \<lparr>genres = [\<lparr>genre_id = ''650000000000000000000001'', genre_name = ''Blues''\<rparr>],
        books = [],
        trace = [Db (OpGenreFindById ''650000000000000000000007''),
                 Db (OpBookFind ''650000000000000000000007''),
                 Redirect ''/catalog/genres'',
                 Render ''genre_delete'' (GenreDeleteLocals ''Delete genre'' None [])]\<rparr>"
  by code_simp

subsection \<open>The list\<close>

text \<open>
  C7. For every state of the Genre collection, \<^verbatim>\<open>genre_list\<close> issues the one sorted
  query and renders the view \<^verbatim>\<open>genre_list\<close> with status 200. The list it passes holds
  exactly the documents of the collection, its names ascend in code order, and they are
  the sorted list of the collection's names, so the order of insertion does not show.
\<close>

theorem genre_list_sorted_by_name:
  "genre_list w =
     w\<lparr>trace := trace w @
        [Db OpGenreFindSorted,
         Render ''genre_list'' (GenreListLocals ''Genre List'' (sort_key genre_name (genres w)))]\<rparr>
   \<and> http_status
        (Render ''genre_list'' (GenreListLocals ''Genre List'' (sort_key genre_name (genres w))))
      = Some 200
   \<and> mset (sort_key genre_name (genres w)) = mset (genres w)
   \<and> sorted (map genre_name (sort_key genre_name (genres w)))
   \<and> map genre_name (sort_key genre_name (genres w)) = sort (map genre_name (genres w))
   \<and> genres (genre_list w) = genres w \<and> books (genre_list w) = books w"
  by (simp add: genre_list_def Genre_find_sort_name_def res_render_def emit_def map_sort_key)

text \<open>Zeta inserted before Alpha, and a lower-case name: capitals sort before small
  letters.\<close>

theorem genre_list_sorted_by_name_witness:
  "genre_list
     \<lparr>genres = [\<lparr>genre_id = ''g1'', genre_name = ''Zeta''\<rparr>,
                \<lparr>genre_id = ''g2'', genre_name = ''Alpha''\<rparr>,
                \<lparr>genre_id = ''g3'', genre_name = ''alpha''\<rparr>],
      books = [], trace = []\<rparr>
   = \<lparr>genres = [\<lparr>genre_id = ''g1'', genre_name = ''Zeta''\<rparr>,
                \<lparr>genre_id = ''g2'', genre_name = ''Alpha''\<rparr>,
                \<lparr>genre_id = ''g3'', genre_name = ''alpha''\<rparr>],
      books = [],
      trace = [Db OpGenreFindSorted,
               Render ''genre_list''
                 (GenreListLocals ''Genre List''
                    [\<lparr>genre_id = ''g2'', genre_name = ''Alpha''\<rparr>,
                     \<lparr>genre_id = ''g1'', genre_name = ''Zeta''\<rparr>,
                     \<lparr>genre_id = ''g3'', genre_name = ''alpha''\<rparr>])]\<rparr>"
  using genre_list_sorted_by_name
    [where w = "\<lparr>genres = [\<lparr>genre_id = ''g1'', genre_name = ''Zeta''\<rparr>,
                \<lparr>genre_id = ''g2'', genre_name = ''Alpha''\<rparr>,
                \<lparr>genre_id = ''g3'', genre_name = ''alpha''\<rparr>],
      books = [], trace = []\<rparr>"]
  by (simp add: less_eq_char_def)

end
